theory Spec2Isabelle
  imports Main "HOL-Library.Word"
begin

unbundle bit_operations_syntax

section \<open>Data model\<close>

text \<open>
  The library works on \<open>std::array\<close>s of fixed-width integers.  A lane is a machine
  word; \<open>sint\<close> reads an \<open>intN_t\<close> lane as the signed number C++ sees, \<open>uint\<close> reads
  the same bits unsigned.  An array is a list; the element count that the C++ type
  fixes (\<open>std::array<int16_t, 16>\<close> and so on) appears as a length hypothesis.

  C++ promotes every operand narrower than \<open>int\<close> to \<open>int\<close> before arithmetic.  The
  promoted computations below work on lanes of at most 16 bits, so their \<open>int\<close> results
  stay far inside the 32-bit range and are modelled by HOL's \<open>int\<close>; the store back
  into a lane truncates, which is \<open>word_of_int\<close>.

  Only the portable branch of each function is modelled (neither \<open>__AVX2__\<close>,
  \<open>__SSE2__\<close>, \<open>__SSE3__\<close> nor \<open>__AES_NI__\<close> defined): the other branches hand the
  work to compiler intrinsics that are not part of the repository.
\<close>

type_synonym int8_t = "8 word"
type_synonym int16_t = "16 word"
type_synonym int64_t = "64 word"
type_synonym uint8_t = "8 word"
type_synonym unsigned = "32 word"

datatype error =
    Assertion_failed        \<comment> \<open>\<open>assert\<close> aborted the program\<close>
  | Static_assert_failed    \<comment> \<open>\<open>static_assert\<close> rejected the instantiation\<close>
  | Undefined_shift         \<comment> \<open>shift count negative or not below the width of \<open>int\<close>\<close>

subsection \<open>\<open>CPP_INTRIN::BitPatterns\<close>\<close>

definition int8_zero_pair_mask :: uint8_t where "int8_zero_pair_mask = 0x03"
definition int8_first_pair_mask :: uint8_t where "int8_first_pair_mask = 0x0C"
definition int8_second_pair_mask :: uint8_t where "int8_second_pair_mask = 0x30"
definition int8_third_pair_mask :: uint8_t where "int8_third_pair_mask = 0xC0"

definition int8_zero_pair_shift :: uint8_t where "int8_zero_pair_shift = 0"
definition int8_first_pair_shift :: uint8_t where "int8_first_pair_shift = 2"
definition int8_second_pair_shift :: uint8_t where "int8_second_pair_shift = 4"
definition int8_third_pair_shift :: uint8_t where "int8_third_pair_shift = 6"

section \<open>The operations\<close>

text \<open>
  Each \<open>for (unsigned i = 0; i < 16; i++)\<close> loop is a \<open>fold\<close> of its body over the
  indices it visits.  The result array is declared without an initialiser in the
  source; it is modelled as zero-filled storage, and every loop assigns each slot.

  \<open>assert\<close> is compiled out when \<open>NDEBUG\<close> is defined; the functions that assert take
  that build flag as their first argument.
\<close>

subsection \<open>\<open>e_sign\<close>\<close>

definition e_sign :: "int16_t \<Rightarrow> int16_t" where
  "e_sign val =
     word_of_int (of_bool (sint (0 :: int16_t) < sint val) - of_bool (sint val < sint (0 :: int16_t)))"

subsection \<open>\<open>m256_hadd_epi16\<close>\<close>

definition m256_hadd_epi16 :: "int16_t list \<Rightarrow> int16_t list \<Rightarrow> int16_t list" where
  "m256_hadd_epi16 a b =
     fold (\<lambda>i c.
       let c = c[i + 0 := word_of_int (sint (a ! (i + 0)) + sint (a ! (i + 1)))];
           c = c[i + 1 := word_of_int (sint (a ! (i + 2)) + sint (a ! (i + 3)))];
           c = c[i + 2 := word_of_int (sint (a ! (i + 4)) + sint (a ! (i + 5)))];
           c = c[i + 3 := word_of_int (sint (a ! (i + 6)) + sint (a ! (i + 7)))];
           c = c[i + 4 := word_of_int (sint (b ! (i + 0)) + sint (b ! (i + 1)))];
           c = c[i + 5 := word_of_int (sint (b ! (i + 2)) + sint (b ! (i + 3)))];
           c = c[i + 6 := word_of_int (sint (b ! (i + 4)) + sint (b ! (i + 5)))]
       in c[i + 7 := word_of_int (sint (b ! (i + 6)) + sint (b ! (i + 7)))])
     [0, 8] (replicate 16 0)"

subsection \<open>Bitwise operations on four 64-bit lanes\<close>

definition m256_xor_epi64 :: "int64_t list \<Rightarrow> int64_t list \<Rightarrow> int64_t list" where
  "m256_xor_epi64 a b = fold (\<lambda>i c. c[i := a ! i XOR b ! i]) [0..<4] (replicate 4 0)"

definition m256_or_epi64 :: "bool \<Rightarrow> int64_t list \<Rightarrow> int64_t list \<Rightarrow> error + int64_t list" where
  "m256_or_epi64 ndebug a b =
     (if \<not> ndebug \<and> \<not> a \<noteq> b then Inl Assertion_failed
      else Inr (fold (\<lambda>i c. c[i := a ! i OR b ! i]) [0..<4] (replicate 4 0)))"

definition m256_and_epi64 :: "bool \<Rightarrow> int64_t list \<Rightarrow> int64_t list \<Rightarrow> error + int64_t list" where
  "m256_and_epi64 ndebug a b =
     (if \<not> ndebug \<and> \<not> a \<noteq> b then Inl Assertion_failed
      else Inr (fold (\<lambda>i c. c[i := a ! i AND b ! i]) [0..<4] (replicate 4 0)))"

subsection \<open>\<open>m256_cmpgt_epi16\<close>\<close>

definition m256_cmpgt_epi16 :: "bool \<Rightarrow> int16_t list \<Rightarrow> int16_t list \<Rightarrow> error + int16_t list" where
  "m256_cmpgt_epi16 ndebug a b =
     (if \<not> ndebug \<and> \<not> a \<noteq> b then Inl Assertion_failed
      else Inr (fold (\<lambda>i c. c[i := word_of_int (of_bool (sint (a ! i) > sint (b ! i)) * 0xFFFF)])
                  [0..<16] (replicate 16 0)))"

subsection \<open>\<open>m256_shuffle_epi8\<close>\<close>

text \<open>
  \<open>flag\<close> and \<open>pos\<close> are \<open>unsigned\<close>: the promoted \<open>int\<close> value of \<open>b[i] & 0x80\<close> is
  converted to 32 bits, \<open>~flag\<close> complements all 32 of them, and \<open>int16_t(~flag)\<close>
  keeps the low 16.  The product with the promoted byte \<open>a[pos]\<close> is an \<open>int\<close>, and
  the store into \<open>c[i]\<close> keeps its low 8 bits.
\<close>

definition m256_shuffle_epi8 :: "bool \<Rightarrow> int8_t list \<Rightarrow> int8_t list \<Rightarrow> error + int8_t list" where
  "m256_shuffle_epi8 ndebug a b =
     (if \<not> ndebug \<and> \<not> a \<noteq> b then Inl Assertion_failed
      else Inr (fold (\<lambda>i c.
        let flag = (word_of_int (sint (b ! i) AND 0x80) :: unsigned);
            pos = (word_of_int (sint (b ! i) AND 0x0F) :: unsigned);
            c = c[i := word_of_int (sint (ucast (NOT flag) :: int16_t) * sint (a ! unat pos))];
            flag2 = (word_of_int (sint (b ! (i + 16)) AND 0x80) :: unsigned);
            pos2 = (word_of_int (sint (b ! (i + 16)) AND 0x0F) :: unsigned)
        in c[i + 16 := word_of_int (sint (ucast (NOT flag2) :: int16_t) * sint (a ! (unat pos2 + 16)))])
        [0..<16] (replicate 32 0)))"

subsection \<open>\<open>m256_add_epi16\<close> and \<open>m256_sub_epi16\<close>\<close>

definition m256_add_epi16 :: "int16_t list \<Rightarrow> int16_t list \<Rightarrow> int16_t list" where
  "m256_add_epi16 a b =
     fold (\<lambda>i c. c[i := word_of_int (sint (a ! i) + sint (b ! i))]) [0..<16] (replicate 16 0)"

definition m256_sub_epi16 :: "int16_t list \<Rightarrow> int16_t list \<Rightarrow> int16_t list" where
  "m256_sub_epi16 a b =
     fold (\<lambda>i c. c[i := word_of_int (sint (a ! i) - sint (b ! i))]) [0..<16] (replicate 16 0)"

subsection \<open>\<open>m256_sign_epi16\<close>\<close>

definition m256_sign_epi16 :: "bool \<Rightarrow> int16_t list \<Rightarrow> int16_t list \<Rightarrow> error + int16_t list" where
  "m256_sign_epi16 ndebug a b =
     (if \<not> ndebug \<and> \<not> a \<noteq> b then Inl Assertion_failed
      else Inr (fold (\<lambda>i c. c[i := word_of_int (sint (a ! i) * sint (e_sign (b ! i)))])
                  [0..<16] (replicate 16 0)))"

subsection \<open>\<open>m256_permute4x64_epi64\<close> and \<open>m256_permute4x64_epi16\<close>\<close>

text \<open>
  The template argument \<open>imm8\<close> is an \<open>int8_t\<close>.  In \<open>(imm8 & mask) >> shift\<close> all three
  operands are promoted to \<open>int\<close> (\<open>imm8\<close> with its sign, the \<open>uint8_t\<close> constants
  without), and the result initialises an \<open>unsigned\<close>.
\<close>

definition m256_permute4x64_epi64 :: "int8_t \<Rightarrow> int64_t list \<Rightarrow> error + int64_t list" where
  "m256_permute4x64_epi64 imm8 a =
     (let zero = (word_of_int (drop_bit (unat int8_zero_pair_shift) (sint imm8 AND uint int8_zero_pair_mask)) :: unsigned);
          first = (word_of_int (drop_bit (unat int8_first_pair_shift) (sint imm8 AND uint int8_first_pair_mask)) :: unsigned);
          second = (word_of_int (drop_bit (unat int8_second_pair_shift) (sint imm8 AND uint int8_second_pair_mask)) :: unsigned);
          third = (word_of_int (drop_bit (unat int8_third_pair_shift) (sint imm8 AND uint int8_third_pair_mask)) :: unsigned)
      in if \<not> (zero < 4 \<and> first < 4 \<and> second < 4 \<and> third < 4) then Inl Static_assert_failed
         else let b = replicate 4 0;
                  b = b[0 := a ! unat zero];
                  b = b[1 := a ! unat first];
                  b = b[2 := a ! unat second]
              in Inr (b[3 := a ! unat third]))"

definition m256_permute4x64_epi16 :: "int8_t \<Rightarrow> int16_t list \<Rightarrow> error + int16_t list" where
  "m256_permute4x64_epi16 imm8 a =
     (let zero = (word_of_int (4 * drop_bit (unat int8_zero_pair_shift) (sint imm8 AND uint int8_zero_pair_mask)) :: unsigned);
          first = (word_of_int (4 * drop_bit (unat int8_first_pair_shift) (sint imm8 AND uint int8_first_pair_mask)) :: unsigned);
          second = (word_of_int (4 * drop_bit (unat int8_second_pair_shift) (sint imm8 AND uint int8_second_pair_mask)) :: unsigned);
          third = (word_of_int (4 * drop_bit (unat int8_third_pair_shift) (sint imm8 AND uint int8_third_pair_mask)) :: unsigned)
      in if \<not> (zero < 16 \<and> first < 16 \<and> second < 16 \<and> third < 16) then Inl Static_assert_failed
         else let b = replicate 16 0;
                  b = b[0 := a ! unat (zero + 0)];
                  b = b[1 := a ! unat (zero + 1)];
                  b = b[2 := a ! unat (zero + 2)];
                  b = b[3 := a ! unat (zero + 3)];
                  b = b[4 := a ! unat (first + 0)];
                  b = b[5 := a ! unat (first + 1)];
                  b = b[6 := a ! unat (first + 2)];
                  b = b[7 := a ! unat (first + 3)];
                  b = b[8 := a ! unat (second + 0)];
                  b = b[9 := a ! unat (second + 1)];
                  b = b[10 := a ! unat (second + 2)];
                  b = b[11 := a ! unat (second + 3)];
                  b = b[12 := a ! unat (third + 0)];
                  b = b[13 := a ! unat (third + 1)];
                  b = b[14 := a ! unat (third + 2)]
              in Inr (b[15 := a ! unat (third + 3)]))"

subsection \<open>\<open>m256_srli_epi16\<close>\<close>

text \<open>
  \<open>static_cast<uint16_t>(a[i])\<close> keeps the 16 bits and reads them unsigned; promoted
  to \<open>int\<close> it is \<open>uint (a ! i)\<close>.  Shifting an \<open>int\<close> is defined only for counts from
  0 to 31.
\<close>

definition m256_srli_epi16 :: "int8_t \<Rightarrow> int16_t list \<Rightarrow> error + int16_t list" where
  "m256_srli_epi16 imm8 a =
     (if sint imm8 < 0 \<or> 32 \<le> sint imm8 then Inl Undefined_shift
      else Inr (fold (\<lambda>i b. b[i := word_of_int (drop_bit (nat (sint imm8)) (uint (a ! i)))])
                  [0..<16] (replicate 16 0)))"

subsection \<open>\<open>m256_abs_epi16\<close>\<close>

text \<open>
  \<open>CHAR_BIT * sizeof(int16_t) - 1\<close> is 15.  The right shift acts on the promoted,
  signed \<open>int\<close>; compilers shift it arithmetically, which on HOL's \<open>int\<close> is
  \<open>drop_bit\<close> (division rounding down).
\<close>

definition m256_abs_epi16 :: "int16_t list \<Rightarrow> int16_t list" where
  "m256_abs_epi16 a =
     fold (\<lambda>i b.
       let signed_extend = (word_of_int (drop_bit (8 * 2 - 1) (sint (a ! i))) :: int16_t)
       in b[i := word_of_int ((sint (a ! i) XOR sint signed_extend) - sint signed_extend)])
     [0..<16] (replicate 16 0)"

subsection \<open>\<open>get_randomness\<close>\<close>


subsection \<open>Calls through references\<close>

text \<open>
  The array parameters are \<open>const std::array<...> &\<close>.  A store maps the address of
  an array object to its contents; a call with the references \<open>p\<close> and \<open>q\<close> reads both
  arguments from the store.
\<close>

definition call_by_reference ::
  "('a list \<Rightarrow> 'a list \<Rightarrow> 'r) \<Rightarrow> (nat \<Rightarrow> 'a list) \<Rightarrow> nat \<Rightarrow> nat \<Rightarrow> 'r" where
  "call_by_reference f store p q = f (store p) (store q)"

subsection \<open>The selector as the specification reads it\<close>

text \<open>
  The specification decodes the 8-bit selector into four 2-bit fields \<open>f0 .. f3\<close>;
  field \<open>k\<close> consists of bits \<open>2k\<close> and \<open>2k + 1\<close>.
\<close>

definition selector_field :: "int8_t \<Rightarrow> nat \<Rightarrow> nat" where
  "selector_field imm8 k = unat (take_bit 2 (drop_bit (2 * k) imm8))"

lemmas BitPatterns_defs =
  int8_zero_pair_mask_def int8_first_pair_mask_def
  int8_second_pair_mask_def int8_third_pair_mask_def
  int8_zero_pair_shift_def int8_first_pair_shift_def
  int8_second_pair_shift_def int8_third_pair_shift_def

section \<open>Loops that fill an array\<close>

lemma length_fold_update:
  "length (fold (\<lambda>i c. c[i := f i]) js c) = length c"
  by (induction js arbitrary: c) simp_all

lemma nth_fold_update:
  "i < n \<Longrightarrow> n \<le> length c \<Longrightarrow> fold (\<lambda>i c. c[i := f i]) [0..<n] c ! i = f i"
proof (induction n)
  case 0
  then show ?case by simp
next
  case (Suc n)
  show ?case
  proof (cases "i = n")
    case True
    with Suc.prems show ?thesis by (simp add: length_fold_update)
  next
    case False
    with Suc.prems have "i < n" "n \<le> length c" by simp_all
    with Suc.IH False show ?thesis by simp
  qed
qed

lemma sint_wrap16:
  "sint (word_of_int k :: int16_t) = (k + 2 ^ 15) mod 2 ^ 16 - 2 ^ 15"
  by (simp add: int_word_sint)

section \<open>Lane-wise addition and subtraction\<close>

text \<open>
  C9.  For 16-lane arrays \<open>a\<close> and \<open>b\<close>, lane \<open>i\<close> of \<open>m256_add_epi16 a b\<close> is
  \<open>a[i] + b[i]\<close> and lane \<open>i\<close> of \<open>m256_sub_epi16 a b\<close> is \<open>a[i] - b[i]\<close>, each
  depending on lane \<open>i\<close> of the inputs only and reduced modulo \<open>2^16\<close> into the signed
  range (two's-complement wrap-around); nothing saturates.
\<close>

theorem m256_add_sub_epi16_wraparound:
  assumes "length a = 16" and "length b = 16" and "i < 16"
  shows "m256_add_epi16 a b ! i = a ! i + b ! i
       \<and> sint (m256_add_epi16 a b ! i) = (sint (a ! i) + sint (b ! i) + 2 ^ 15) mod 2 ^ 16 - 2 ^ 15
       \<and> m256_sub_epi16 a b ! i = a ! i - b ! i
       \<and> sint (m256_sub_epi16 a b ! i) = (sint (a ! i) - sint (b ! i) + 2 ^ 15) mod 2 ^ 16 - 2 ^ 15
       \<and> length (m256_add_epi16 a b) = 16 \<and> length (m256_sub_epi16 a b) = 16"
proof -
  have add: "m256_add_epi16 a b ! i = word_of_int (sint (a ! i) + sint (b ! i))"
    using assms(3) by (simp add: m256_add_epi16_def nth_fold_update)
  have sub: "m256_sub_epi16 a b ! i = word_of_int (sint (a ! i) - sint (b ! i))"
    using assms(3) by (simp add: m256_sub_epi16_def nth_fold_update)
  have "m256_add_epi16 a b ! i = a ! i + b ! i"
    unfolding add by simp
  moreover have "sint (m256_add_epi16 a b ! i) = (sint (a ! i) + sint (b ! i) + 2 ^ 15) mod 2 ^ 16 - 2 ^ 15"
    unfolding add by (rule sint_wrap16)
  moreover have "m256_sub_epi16 a b ! i = a ! i - b ! i"
    unfolding sub by simp
  moreover have "sint (m256_sub_epi16 a b ! i) = (sint (a ! i) - sint (b ! i) + 2 ^ 15) mod 2 ^ 16 - 2 ^ 15"
    unfolding sub by (rule sint_wrap16)
  moreover have "length (m256_add_epi16 a b) = 16"
    by (simp add: m256_add_epi16_def length_fold_update)
  moreover have "length (m256_sub_epi16 a b) = 16"
    by (simp add: m256_sub_epi16_def length_fold_update)
  ultimately show ?thesis by blast
qed

theorem m256_add_sub_epi16_wraparound_witness:
  "length (replicate 16 (32767 :: int16_t)) = 16 \<and> length (replicate 16 (1 :: int16_t)) = 16
   \<and> (3 :: nat) < 16
   \<and> sint (m256_add_epi16 (replicate 16 32767) (replicate 16 1) ! 3) = - 32768
   \<and> sint (m256_sub_epi16 (replicate 16 (- 32768)) (replicate 16 1) ! 3) = 32767"
  using m256_add_sub_epi16_wraparound [of "replicate 16 32767" "replicate 16 1" 3]
        m256_add_sub_epi16_wraparound [of "replicate 16 (- 32768)" "replicate 16 1" 3]
  by simp

section \<open>Horizontal addition\<close>

lemma less_4_cases: "j < (4::nat) \<Longrightarrow> j = 0 \<or> j = 1 \<or> j = 2 \<or> j = 3"
  by arith

lemma m256_hadd_epi16_unfold:
  "m256_hadd_epi16 a b =
     (replicate 16 0)
       [0 := a ! 0 + a ! 1, 1 := a ! 2 + a ! 3, 2 := a ! 4 + a ! 5, 3 := a ! 6 + a ! 7,
        4 := b ! 0 + b ! 1, 5 := b ! 2 + b ! 3, 6 := b ! 4 + b ! 5, 7 := b ! 6 + b ! 7,
        8 := a ! 8 + a ! 9, 9 := a ! 10 + a ! 11, 10 := a ! 12 + a ! 13, 11 := a ! 14 + a ! 15,
        12 := b ! 8 + b ! 9, 13 := b ! 10 + b ! 11, 14 := b ! 12 + b ! 13, 15 := b ! 14 + b ! 15]"
  by (simp add: m256_hadd_epi16_def Let_def numeral_2_eq_2 [symmetric] numeral_3_eq_3 [symmetric])

text \<open>
  C5.  For 16-lane arrays \<open>a\<close> and \<open>b\<close>, each block offset \<open>i\<close> in \<open>{0, 8}\<close> and each
  \<open>j < 4\<close>: lane \<open>i + j\<close> of \<open>m256_hadd_epi16 a b\<close> is \<open>a[i + 2j] + a[i + 2j + 1]\<close> and
  lane \<open>i + 4 + j\<close> is \<open>b[i + 2j] + b[i + 2j + 1]\<close>, the sums wrapping at 16 bits (word
  addition).  So the first four lanes of each block of eight come from adjacent pairs of
  the same half of \<open>a\<close>, the next four from the same half of \<open>b\<close>.
\<close>

theorem m256_hadd_epi16_pairs:
  assumes "length a = 16" and "length b = 16" and "i = 0 \<or> i = 8" and "j < 4"
  shows "m256_hadd_epi16 a b ! (i + j) = a ! (i + 2 * j) + a ! (i + 2 * j + 1)
       \<and> m256_hadd_epi16 a b ! (i + 4 + j) = b ! (i + 2 * j) + b ! (i + 2 * j + 1)
       \<and> length (m256_hadd_epi16 a b) = 16"
  using assms(3) less_4_cases [OF assms(4)]
  unfolding m256_hadd_epi16_unfold
  by (elim disjE) (simp_all add: numeral_2_eq_2 [symmetric] numeral_3_eq_3 [symmetric])

theorem m256_hadd_epi16_pairs_witness:
  "length (map word_of_nat [0..<16] :: int16_t list) = 16
   \<and> length (map (\<lambda>n. word_of_nat (100 * n)) [0..<16] :: int16_t list) = 16
   \<and> ((8::nat) = 0 \<or> (8::nat) = 8) \<and> (1::nat) < 4
   \<and> m256_hadd_epi16 (map word_of_nat [0..<16]) (map (\<lambda>n. word_of_nat (100 * n)) [0..<16]) ! 9 = 21
   \<and> m256_hadd_epi16 (map word_of_nat [0..<16]) (map (\<lambda>n. word_of_nat (100 * n)) [0..<16]) ! 13 = 2100"
  using m256_hadd_epi16_pairs [of "map word_of_nat [0..<16]" "map (\<lambda>n. word_of_nat (100 * n)) [0..<16]" 8 1]
  by simp

section \<open>Signed greater-than mask\<close>

text \<open>
  C8.  For distinct 16-lane arrays \<open>a\<close> and \<open>b\<close> (in either build), \<open>m256_cmpgt_epi16\<close>
  returns an array whose lane \<open>i\<close> is the all-ones pattern \<open>0xFFFF\<close> when \<open>a[i] > b[i]\<close>
  as signed numbers, and \<open>0\<close> otherwise.
\<close>

theorem m256_cmpgt_epi16_mask:
  assumes "length a = 16" and "length b = 16" and "a \<noteq> b" and "i < 16"
  shows "\<exists>c. m256_cmpgt_epi16 ndebug a b = Inr c \<and> length c = 16
           \<and> c ! i = (if sint (a ! i) > sint (b ! i) then 0xFFFF else 0)"
  using assms(3,4)
  by (simp add: m256_cmpgt_epi16_def length_fold_update nth_fold_update)

theorem m256_cmpgt_epi16_mask_witness:
  "length ([5, - 3, 4] @ replicate 13 (0 :: int16_t)) = 16
   \<and> length ([- 3, 5, 4] @ replicate 13 (0 :: int16_t)) = 16
   \<and> [5, - 3, 4] @ replicate 13 (0 :: int16_t) \<noteq> [- 3, 5, 4] @ replicate 13 0
   \<and> (0 :: nat) < 16 \<and> (1 :: nat) < 16
   \<and> (\<exists>c. m256_cmpgt_epi16 False ([5, - 3, 4] @ replicate 13 0) ([- 3, 5, 4] @ replicate 13 0) = Inr c
          \<and> c ! 0 = 0xFFFF \<and> c ! 1 = 0)"
  using m256_cmpgt_epi16_mask [of "[5, - 3, 4] @ replicate 13 0" "[- 3, 5, 4] @ replicate 13 0" 0 False]
        m256_cmpgt_epi16_mask [of "[5, - 3, 4] @ replicate 13 0" "[- 3, 5, 4] @ replicate 13 0" 1 False]
  by auto

section \<open>Conditional sign application\<close>

lemma e_sign_cases:
  "e_sign v = (if 0 < sint v then 1 else if sint v = 0 then 0 else - 1)"
  by (simp add: e_sign_def)

lemma sint_e_sign: "sint (e_sign v) = sgn (sint v)"
  by (simp add: e_sign_cases sgn_if)

lemma sign_lane:
  "(word_of_int (sint x * sint (e_sign v)) :: int16_t) =
     (if 0 < sint v then x else if sint v = 0 then 0 else - x)"
  by (simp add: e_sign_cases)

text \<open>
  C4.  For distinct 16-lane arrays \<open>a\<close> and \<open>b\<close>, lane \<open>i\<close> of \<open>m256_sign_epi16 a b\<close> is
  \<open>a[i]\<close> when \<open>b[i] > 0\<close>, \<open>0\<close> when \<open>b[i] = 0\<close> and \<open>- a[i]\<close> (negation of the 16-bit
  word, so two's complement) when \<open>b[i] < 0\<close>, whatever the sign of \<open>a[i]\<close>; the sign of
  \<open>b[i]\<close> is read as that of a signed 16-bit number.  As a signed number the lane is
  \<open>a[i] * signum (b[i])\<close> wrapped into 16 bits.
\<close>

theorem m256_sign_epi16_three_way:
  assumes "length a = 16" and "length b = 16" and "a \<noteq> b" and "i < 16"
  shows "\<exists>c. m256_sign_epi16 ndebug a b = Inr c \<and> length c = 16
           \<and> c ! i = (if 0 < sint (b ! i) then a ! i else if sint (b ! i) = 0 then 0 else - (a ! i))
           \<and> sint (c ! i) = (sint (a ! i) * sgn (sint (b ! i)) + 2 ^ 15) mod 2 ^ 16 - 2 ^ 15"
proof -
  let ?c = "fold (\<lambda>i c. c[i := word_of_int (sint (a ! i) * sint (e_sign (b ! i)))])
              [0..<16] (replicate 16 (0 :: int16_t))"
  have run: "m256_sign_epi16 ndebug a b = Inr ?c"
    using assms(3) by (simp add: m256_sign_epi16_def)
  have len: "length ?c = 16"
    by (simp add: length_fold_update)
  have lane: "?c ! i = word_of_int (sint (a ! i) * sint (e_sign (b ! i)))"
    using assms(4) by (simp add: nth_fold_update)
  have lane': "?c ! i = word_of_int (sint (a ! i) * sgn (sint (b ! i)))"
    using lane by (simp only: sint_e_sign)
  have "?c ! i = (if 0 < sint (b ! i) then a ! i else if sint (b ! i) = 0 then 0 else - (a ! i))"
    unfolding lane by (rule sign_lane)
  moreover have "sint (?c ! i) = (sint (a ! i) * sgn (sint (b ! i)) + 2 ^ 15) mod 2 ^ 16 - 2 ^ 15"
    unfolding lane' by (rule sint_wrap16)
  ultimately show ?thesis using run len by blast
qed

theorem m256_sign_epi16_three_way_witness:
  "length ([7, 7, 7, - 32768] @ replicate 12 (0 :: int16_t)) = 16
   \<and> length ([3, 0, - 3, - 1] @ replicate 12 (0 :: int16_t)) = 16
   \<and> [7, 7, 7, - 32768] @ replicate 12 (0 :: int16_t) \<noteq> [3, 0, - 3, - 1] @ replicate 12 0
   \<and> (0 :: nat) < 16 \<and> (1 :: nat) < 16 \<and> (2 :: nat) < 16 \<and> (3 :: nat) < 16
   \<and> (\<exists>c. m256_sign_epi16 False ([7, 7, 7, - 32768] @ replicate 12 0) ([3, 0, - 3, - 1] @ replicate 12 0) = Inr c
          \<and> c ! 0 = 7 \<and> c ! 1 = 0 \<and> c ! 2 = - 7 \<and> sint (c ! 3) = - 32768)"
  using m256_sign_epi16_three_way [of "[7, 7, 7, - 32768] @ replicate 12 0" "[3, 0, - 3, - 1] @ replicate 12 0" 0 False]
        m256_sign_epi16_three_way [of "[7, 7, 7, - 32768] @ replicate 12 0" "[3, 0, - 3, - 1] @ replicate 12 0" 1 False]
        m256_sign_epi16_three_way [of "[7, 7, 7, - 32768] @ replicate 12 0" "[3, 0, - 3, - 1] @ replicate 12 0" 2 False]
        m256_sign_epi16_three_way [of "[7, 7, 7, - 32768] @ replicate 12 0" "[3, 0, - 3, - 1] @ replicate 12 0" 3 False]
  by auto

section \<open>Logical right shift\<close>

lemma uint_drop_bit: "uint (drop_bit n x) = drop_bit n (uint x)"
  by transfer (simp add: drop_bit_take_bit)

lemma srli_lane: "(word_of_int (drop_bit n (uint x)) :: int16_t) = drop_bit n x"
  by (simp add: uint_drop_bit [symmetric])

text \<open>
  C3.  For a 16-lane array \<open>a\<close> and a shift count \<open>imm8\<close> from 0 to 16,
  \<open>m256_srli_epi16\<close> returns an array whose lane \<open>i\<close>, read unsigned, is the unsigned
  reading of \<open>a[i]\<close> divided by \<open>2^imm8\<close> rounding down: a logical shift that fills with
  zero bits.  In particular the lane \<open>-1\<close> shifted by 1 becomes \<open>0x7FFF\<close> = 32767, with
  the top bit clear.
\<close>

theorem m256_srli_epi16_logical:
  assumes "length a = 16" and "0 \<le> sint imm8" and "sint imm8 \<le> 16" and "i < 16"
  shows "\<exists>b. m256_srli_epi16 imm8 a = Inr b \<and> length b = 16
           \<and> uint (b ! i) = uint (a ! i) div 2 ^ nat (sint imm8)
           \<and> (a ! i = - 1 \<and> imm8 = 1 \<longrightarrow> b ! i = 0x7FFF \<and> sint (b ! i) = 32767 \<and> \<not> bit (b ! i) 15)"
proof -
  let ?b = "fold (\<lambda>i b. b[i := word_of_int (drop_bit (nat (sint imm8)) (uint (a ! i)))])
              [0..<16] (replicate 16 (0 :: int16_t))"
  have run: "m256_srli_epi16 imm8 a = Inr ?b"
    using assms(2,3) by (simp add: m256_srli_epi16_def)
  have len: "length ?b = 16"
    by (simp add: length_fold_update)
  have lane: "?b ! i = drop_bit (nat (sint imm8)) (a ! i)"
    using assms(4) by (simp add: nth_fold_update srli_lane)
  have "uint (?b ! i) = uint (a ! i) div 2 ^ nat (sint imm8)"
    unfolding lane by (simp add: uint_drop_bit drop_bit_int_def)
  moreover have "a ! i = - 1 \<and> imm8 = 1 \<longrightarrow> ?b ! i = 0x7FFF \<and> sint (?b ! i) = 32767 \<and> \<not> bit (?b ! i) 15"
    unfolding lane by (simp add: drop_bit_eq_div)
  ultimately show ?thesis using run len by blast
qed

theorem m256_srli_epi16_logical_witness:
  "length (replicate 16 (- 1 :: int16_t)) = 16 \<and> 0 \<le> sint (1 :: int8_t) \<and> sint (1 :: int8_t) \<le> 16
   \<and> (0 :: nat) < 16 \<and> replicate 16 (- 1 :: int16_t) ! 0 = - 1
   \<and> (\<exists>b. m256_srli_epi16 1 (replicate 16 (- 1)) = Inr b \<and> b ! 0 = 0x7FFF \<and> sint (b ! 0) = 32767)"
  using m256_srli_epi16_logical [of "replicate 16 (- 1)" 1 0]
  by auto

section \<open>Absolute value\<close>

lemma sint16_range: "- 32768 \<le> sint (x :: int16_t)" "sint (x :: int16_t) < 32768"
  using sint_ge [of x] sint_lt [of x] by simp_all

lemma sign_mask_neg:
  assumes "sint (x :: int16_t) < 0"
  shows "drop_bit 15 (sint x) = - 1"
proof -
  have "sint x div 32768 = - 1"
    using assms sint16_range(1) [of x] by arith
  then show ?thesis by (simp add: drop_bit_int_def)
qed

lemma sign_mask_nonneg:
  assumes "0 \<le> sint (x :: int16_t)"
  shows "drop_bit 15 (sint x) = 0"
  using assms sint16_range(2) [of x] by (simp add: drop_bit_int_def)

lemma sint_neg16:
  fixes x :: int16_t
  shows "sint (- x) = (if sint x = - 32768 then - 32768 else - sint x)"
proof -
  have "sint (- x) = (- sint x + 2 ^ 15) mod 2 ^ 16 - 2 ^ 15"
    using sint_wrap16 [of "- sint x"] by simp
  then show ?thesis
    using sint16_range [of x] by auto
qed

lemma m256_abs_epi16_nth:
  assumes "i < 16"
  shows "m256_abs_epi16 a ! i = (if sint (a ! i) < 0 then - (a ! i) else a ! i)"
  using assms
  by (cases "sint (a ! i) < 0")
     (simp_all add: m256_abs_epi16_def Let_def nth_fold_update sign_mask_neg sign_mask_nonneg not_int_def)

text \<open>
  C6.  For a 16-lane array \<open>a\<close>, lane \<open>i\<close> of \<open>m256_abs_epi16 a\<close> read as a signed number
  is the absolute value of \<open>a[i]\<close> whenever \<open>a[i]\<close> is not \<open>-32768\<close>; for \<open>a[i] = -32768\<close>
  the lane is \<open>-32768\<close> again.  The function always returns (it has no failure branch).
\<close>

theorem m256_abs_epi16_twos_complement:
  assumes "length a = 16" and "i < 16"
  shows "length (m256_abs_epi16 a) = 16
       \<and> (sint (a ! i) \<noteq> - 32768 \<longrightarrow> sint (m256_abs_epi16 a ! i) = \<bar>sint (a ! i)\<bar>)
       \<and> (sint (a ! i) = - 32768 \<longrightarrow> sint (m256_abs_epi16 a ! i) = - 32768)"
proof -
  note lane = m256_abs_epi16_nth [OF assms(2), of a]
  have "length (m256_abs_epi16 a) = 16"
    by (simp add: m256_abs_epi16_def Let_def length_fold_update)
  moreover have "sint (a ! i) \<noteq> - 32768 \<longrightarrow> sint (m256_abs_epi16 a ! i) = \<bar>sint (a ! i)\<bar>"
    unfolding lane by (simp add: sint_neg16)
  moreover have "sint (a ! i) = - 32768 \<longrightarrow> sint (m256_abs_epi16 a ! i) = - 32768"
    unfolding lane by (simp add: sint_neg16)
  ultimately show ?thesis by blast
qed

theorem m256_abs_epi16_twos_complement_witness:
  "length ([- 32768, - 5, 7] @ replicate 13 (0 :: int16_t)) = 16 \<and> (0 :: nat) < 16 \<and> (1 :: nat) < 16
   \<and> sint (([- 32768, - 5, 7] @ replicate 13 (0 :: int16_t)) ! 0) = - 32768
   \<and> sint (([- 32768, - 5, 7] @ replicate 13 (0 :: int16_t)) ! 1) \<noteq> - 32768
   \<and> sint (m256_abs_epi16 ([- 32768, - 5, 7] @ replicate 13 0) ! 0) = - 32768
   \<and> sint (m256_abs_epi16 ([- 32768, - 5, 7] @ replicate 13 0) ! 1) = 5"
  using m256_abs_epi16_twos_complement [of "[- 32768, - 5, 7] @ replicate 13 0" 0]
        m256_abs_epi16_twos_complement [of "[- 32768, - 5, 7] @ replicate 13 0" 1]
  by simp

section \<open>Lane permutation\<close>

lemma take_drop_sint:
  fixes w :: int8_t
  assumes "s \<le> 6"
  shows "take_bit 2 (drop_bit s (sint w)) = uint (take_bit 2 (drop_bit s w))"
proof (rule bit_eqI)
  fix n
  show "bit (take_bit 2 (drop_bit s (sint w))) n = bit (uint (take_bit 2 (drop_bit s w))) n"
    using assms
    by (auto simp: bit_sint_iff bit_uint_iff bit_take_bit_iff bit_drop_bit_eq dest: bit_imp_le_length)
qed

lemma pair_decode:
  fixes w :: int8_t
  assumes "s \<le> 6"
  shows "drop_bit s (sint w AND push_bit s 3) = uint (take_bit 2 (drop_bit s w))"
proof -
  have "drop_bit s (sint w AND push_bit s 3) = drop_bit s (sint w) AND drop_bit s (push_bit s 3)"
    by (rule drop_bit_and)
  also have "\<dots> = drop_bit s (sint w) AND mask 2"
    by (simp add: drop_bit_push_bit mask_eq_exp_minus_1)
  also have "\<dots> = take_bit 2 (drop_bit s (sint w))"
    by (simp add: take_bit_eq_mask)
  finally show ?thesis by (simp add: take_drop_sint [OF assms])
qed

lemma selector_field_less: "selector_field imm8 k < 4"
proof -
  have "unat (take_bit 2 (drop_bit (2 * k) imm8)) = take_bit 2 (unat (drop_bit (2 * k) imm8))"
    by (simp add: unsigned_take_bit_eq)
  also have "\<dots> < 2 ^ 2"
    by (rule take_bit_nat_less_exp)
  finally show ?thesis by (simp add: selector_field_def)
qed

lemma decode_zero:
  "drop_bit (unat int8_zero_pair_shift) (sint imm8 AND uint int8_zero_pair_mask)
     = int (selector_field imm8 0)"
  using pair_decode [of 0 imm8] by (simp add: BitPatterns_defs selector_field_def)

lemma decode_first:
  "drop_bit (unat int8_first_pair_shift) (sint imm8 AND uint int8_first_pair_mask)
     = int (selector_field imm8 1)"
  using pair_decode [of 2 imm8] by (simp add: BitPatterns_defs selector_field_def)

lemma decode_second:
  "drop_bit (unat int8_second_pair_shift) (sint imm8 AND uint int8_second_pair_mask)
     = int (selector_field imm8 2)"
  using pair_decode [of 4 imm8] by (simp add: BitPatterns_defs selector_field_def)

lemma decode_third:
  "drop_bit (unat int8_third_pair_shift) (sint imm8 AND uint int8_third_pair_mask)
     = int (selector_field imm8 3)"
  using pair_decode [of 6 imm8] by (simp add: BitPatterns_defs selector_field_def)

lemmas decode_fields = decode_zero decode_first decode_second decode_third

lemma unsigned_small:
  assumes "n < 16"
  shows "unat (word_of_nat n :: unsigned) = n" and "(word_of_nat n :: unsigned) < 16"
    and "n < 4 \<Longrightarrow> (word_of_nat n :: unsigned) < 4"
  using assms by (simp_all add: word_less_nat_alt unat_of_nat)

lemma m256_permute4x64_epi64_unfold:
  "m256_permute4x64_epi64 imm8 a =
     Inr ((replicate 4 0)
            [0 := a ! selector_field imm8 0, 1 := a ! selector_field imm8 1,
             2 := a ! selector_field imm8 2, 3 := a ! selector_field imm8 3])"
proof -
  have "selector_field imm8 k < 16" for k
    using selector_field_less [of imm8 k] by simp
  then show ?thesis
    unfolding m256_permute4x64_epi64_def decode_fields
    by (simp add: Let_def unsigned_small selector_field_less)
qed

lemma quad_index:
  assumes "f < 4" and "j < 4"
  shows "unat (4 * word_of_nat f + word_of_nat j :: unsigned) = 4 * f + j"
proof -
  have "unat (word_of_nat (4 * f + j) :: unsigned) = 4 * f + j"
    using assms by (simp add: unat_of_nat del: of_nat_add of_nat_mult)
  then show ?thesis by simp
qed

lemma quad_base:
  assumes "f < 4"
  shows "(4 * word_of_nat f :: unsigned) < 16"
proof -
  have "unat (word_of_nat (4 * f) :: unsigned) = 4 * f"
    using assms by (simp add: unat_of_nat del: of_nat_add of_nat_mult)
  then show ?thesis
    using assms by (simp add: word_less_nat_alt)
qed

lemmas quad_index_simps =
  quad_index [of _ 0, simplified] quad_index [of _ 1, simplified]
  quad_index [of _ 2, simplified] quad_index [of _ 3, simplified]
  quad_base

lemma m256_permute4x64_epi16_unfold:
  "m256_permute4x64_epi16 imm8 a =
     Inr ((replicate 16 0)
            [0 := a ! (4 * selector_field imm8 0 + 0), 1 := a ! (4 * selector_field imm8 0 + 1),
             2 := a ! (4 * selector_field imm8 0 + 2), 3 := a ! (4 * selector_field imm8 0 + 3),
             4 := a ! (4 * selector_field imm8 1 + 0), 5 := a ! (4 * selector_field imm8 1 + 1),
             6 := a ! (4 * selector_field imm8 1 + 2), 7 := a ! (4 * selector_field imm8 1 + 3),
             8 := a ! (4 * selector_field imm8 2 + 0), 9 := a ! (4 * selector_field imm8 2 + 1),
             10 := a ! (4 * selector_field imm8 2 + 2), 11 := a ! (4 * selector_field imm8 2 + 3),
             12 := a ! (4 * selector_field imm8 3 + 0), 13 := a ! (4 * selector_field imm8 3 + 1),
             14 := a ! (4 * selector_field imm8 3 + 2), 15 := a ! (4 * selector_field imm8 3 + 3)])"
  unfolding m256_permute4x64_epi16_def decode_fields
  by (simp add: Let_def quad_index_simps selector_field_less)

lemma m256_permute4x64_epi16_nth:
  assumes "k < 4" and "j < 4"
  shows "\<exists>d. m256_permute4x64_epi16 imm8 c = Inr d \<and> length d = 16
           \<and> d ! (4 * k + j) = c ! (4 * selector_field imm8 k + j)"
  using less_4_cases [OF assms(1)] less_4_cases [OF assms(2)]
  unfolding m256_permute4x64_epi16_unfold
  by (elim disjE) (simp_all add: numeral_2_eq_2 [symmetric] numeral_3_eq_3 [symmetric])

lemma m256_permute4x64_epi64_nth:
  assumes "k < 4"
  shows "\<exists>b. m256_permute4x64_epi64 imm8 a = Inr b \<and> length b = 4
           \<and> b ! k = a ! selector_field imm8 k"
  using less_4_cases [OF assms(1)]
  unfolding m256_permute4x64_epi64_unfold
  by (elim disjE) (simp_all add: numeral_2_eq_2 [symmetric] numeral_3_eq_3 [symmetric])

text \<open>
  C7.  For every selector \<open>imm8\<close> (all 256 values pass the static assertions), with
  \<open>f_k\<close> its \<open>k\<close>-th 2-bit field, which is below 4: \<open>m256_permute4x64_epi64\<close> on a
  4-lane array \<open>a\<close> returns \<open>b\<close> with \<open>b[k] = a[f_k]\<close> for every \<open>k < 4\<close>, and
  \<open>m256_permute4x64_epi16\<close> on a 16-lane array \<open>c\<close> returns \<open>d\<close> whose group \<open>k\<close> is
  group \<open>f_k\<close> of \<open>c\<close>, lane by lane in the same order: \<open>d[4k + j] = c[4 f_k + j]\<close> for
  \<open>j < 4\<close>.
\<close>

theorem m256_permute4x64_selects:
  assumes "length a = 4" and "length c = 16" and "k < 4"
  shows "selector_field imm8 k < 4
       \<and> (\<exists>b. m256_permute4x64_epi64 imm8 a = Inr b \<and> length b = 4
                \<and> b ! k = a ! selector_field imm8 k)
       \<and> (\<exists>d. m256_permute4x64_epi16 imm8 c = Inr d \<and> length d = 16
                \<and> (\<forall>j<4. d ! (4 * k + j) = c ! (4 * selector_field imm8 k + j)))"
proof -
  obtain d where d: "m256_permute4x64_epi16 imm8 c = Inr d" "length d = 16"
    using m256_permute4x64_epi16_nth [OF assms(3), of 0 imm8 c] by auto
  have "d ! (4 * k + j) = c ! (4 * selector_field imm8 k + j)" if "j < 4" for j
    using m256_permute4x64_epi16_nth [OF assms(3) that, of imm8 c] d(1) by auto
  with d have "\<exists>d. m256_permute4x64_epi16 imm8 c = Inr d \<and> length d = 16
                \<and> (\<forall>j<4. d ! (4 * k + j) = c ! (4 * selector_field imm8 k + j))"
    by blast
  with selector_field_less [of imm8 k] m256_permute4x64_epi64_nth [OF assms(3), of imm8 a]
  show ?thesis by blast
qed

theorem m256_permute4x64_selects_witness:
  "length [10, 11, 12, 13 :: int64_t] = 4 \<and> length (map word_of_nat [0..<16] :: int16_t list) = 16
   \<and> (0 :: nat) < 4 \<and> selector_field 0x1B 0 = 3
   \<and> (\<exists>b. m256_permute4x64_epi64 0x1B [10, 11, 12, 13] = Inr b \<and> b ! 0 = 13)
   \<and> (\<exists>d. m256_permute4x64_epi16 0x1B (map word_of_nat [0..<16]) = Inr d
          \<and> d ! 0 = 12 \<and> d ! 3 = 15)"
proof -
  have f: "selector_field 0x1B 0 = 3"
    by (simp add: selector_field_def)
  show ?thesis
    using m256_permute4x64_selects [of "[10, 11, 12, 13]" "map word_of_nat [0..<16]" 0 "0x1B"]
    unfolding f by auto
qed

section \<open>The asserted precondition\<close>

lemma elementwise_eq:
  assumes "length xs = n" and "length ys = n"
  shows "(\<forall>i<n. xs ! i = ys ! i) = (xs = ys)"
  using assms by (auto simp: list_eq_iff_nth_eq)

text \<open>
  C10.  In a checked build (\<open>NDEBUG\<close> not defined) the assertion of \<open>m256_or_epi64\<close>,
  \<open>m256_and_epi64\<close>, \<open>m256_cmpgt_epi16\<close>, \<open>m256_sign_epi16\<close> and \<open>m256_shuffle_epi8\<close>
  fails exactly when the two argument arrays agree in every element.  The addresses
  \<open>p\<close> and \<open>q\<close> of the two arrays play no part: two different objects with equal
  contents are rejected just as a self-aliased call is.
\<close>

theorem assertion_compares_contents:
  assumes "length (s64 p) = 4" and "length (s64 q) = 4"
    and "length (s16 p) = 16" and "length (s16 q) = 16"
    and "length (s8 p) = 32" and "length (s8 q) = 32"
  shows "(call_by_reference (m256_or_epi64 False) s64 p q = Inl Assertion_failed) = (\<forall>i<4. s64 p ! i = s64 q ! i)
       \<and> (call_by_reference (m256_and_epi64 False) s64 p q = Inl Assertion_failed) = (\<forall>i<4. s64 p ! i = s64 q ! i)
       \<and> (call_by_reference (m256_cmpgt_epi16 False) s16 p q = Inl Assertion_failed) = (\<forall>i<16. s16 p ! i = s16 q ! i)
       \<and> (call_by_reference (m256_sign_epi16 False) s16 p q = Inl Assertion_failed) = (\<forall>i<16. s16 p ! i = s16 q ! i)
       \<and> (call_by_reference (m256_shuffle_epi8 False) s8 p q = Inl Assertion_failed) = (\<forall>i<32. s8 p ! i = s8 q ! i)"
  unfolding elementwise_eq [OF assms(1,2)] elementwise_eq [OF assms(3,4)] elementwise_eq [OF assms(5,6)]
  by (simp add: call_by_reference_def m256_or_epi64_def m256_and_epi64_def m256_cmpgt_epi16_def
        m256_sign_epi16_def m256_shuffle_epi8_def)

theorem assertion_compares_contents_witness:
  "(0 :: nat) \<noteq> 1
   \<and> length ((\<lambda>p :: nat. if p = 2 then replicate 4 8 else replicate 4 (7 :: int64_t)) 0) = 4
   \<and> length ((\<lambda>p :: nat. if p = 2 then replicate 4 8 else replicate 4 (7 :: int64_t)) 1) = 4
   \<and> length ((\<lambda>p :: nat. if p = 2 then replicate 16 8 else replicate 16 (7 :: int16_t)) 0) = 16
   \<and> length ((\<lambda>p :: nat. if p = 2 then replicate 16 8 else replicate 16 (7 :: int16_t)) 1) = 16
   \<and> length ((\<lambda>p :: nat. if p = 2 then replicate 32 8 else replicate 32 (7 :: int8_t)) 0) = 32
   \<and> length ((\<lambda>p :: nat. if p = 2 then replicate 32 8 else replicate 32 (7 :: int8_t)) 1) = 32
   \<and> call_by_reference (m256_or_epi64 False) (\<lambda>p. if p = 2 then replicate 4 8 else replicate 4 7) 0 1
        = Inl Assertion_failed
   \<and> call_by_reference (m256_and_epi64 False) (\<lambda>p. if p = 2 then replicate 4 8 else replicate 4 7) 0 1
        = Inl Assertion_failed
   \<and> call_by_reference (m256_cmpgt_epi16 False) (\<lambda>p. if p = 2 then replicate 16 8 else replicate 16 7) 0 1
        = Inl Assertion_failed
   \<and> call_by_reference (m256_sign_epi16 False) (\<lambda>p. if p = 2 then replicate 16 8 else replicate 16 7) 0 1
        = Inl Assertion_failed
   \<and> call_by_reference (m256_shuffle_epi8 False) (\<lambda>p. if p = 2 then replicate 32 8 else replicate 32 7) 0 1
        = Inl Assertion_failed
   \<and> call_by_reference (m256_or_epi64 False) (\<lambda>p. if p = 2 then replicate 4 8 else replicate 4 7) 0 2
        \<noteq> Inl Assertion_failed"
  using assertion_compares_contents
          [of "\<lambda>p. if p = 2 then replicate 4 8 else replicate 4 7" 0 1
              "\<lambda>p. if p = 2 then replicate 16 8 else replicate 16 7"
              "\<lambda>p. if p = 2 then replicate 32 8 else replicate 32 7"]
  by (simp add: call_by_reference_def m256_or_epi64_def)

section \<open>Byte shuffle\<close>

lemma length_fold_update2:
  "length (fold (\<lambda>i c. c[i := f i, i + m := g i]) js c) = length c"
  by (induction js arbitrary: c) simp_all

lemma nth_fold_update2:
  assumes "i < n" and "n \<le> m" and "n + m \<le> length c"
  shows "fold (\<lambda>i c. c[i := f i, i + m := g i]) [0..<n] c ! i = f i
       \<and> fold (\<lambda>i c. c[i := f i, i + m := g i]) [0..<n] c ! (i + m) = g i"
  using assms
proof (induction n)
  case 0
  then show ?case by simp
next
  case (Suc n)
  let ?r = "fold (\<lambda>i c. c[i := f i, i + m := g i]) [0..<n] c"
  have len: "length ?r = length c"
    by (rule length_fold_update2)
  show ?case
  proof (cases "i = n")
    case True
    with Suc.prems show ?thesis by (simp add: len)
  next
    case False
    with Suc.prems have "i < n" "n \<le> m" "n + m \<le> length c" by simp_all
    with Suc.IH have "?r ! i = f i \<and> ?r ! (i + m) = g i" by blast
    with False Suc.prems show ?thesis by (simp add: len)
  qed
qed

lemma sint_and_exp:
  fixes x :: int8_t
  assumes "n < 8"
  shows "sint x AND 2 ^ n = (if bit x n then 2 ^ n else 0)"
  using assms by (intro bit_eqI) (auto simp: bit_simps bit_sint_iff)

lemma flag_bit:
  fixes x :: int8_t
  shows "(word_of_int (sint x AND 0x80) :: unsigned) = (if bit x 7 then 0x80 else 0)"
  using sint_and_exp [of 7 x] by simp

lemma sint_and_mask:
  fixes x :: int8_t
  assumes "n < 8"
  shows "sint x AND mask n = uint (x AND mask n)"
  using assms by (intro bit_eqI) (auto simp: bit_simps bit_sint_iff dest: bit_imp_le_length)

lemma nibble_less: "unat ((x :: int8_t) AND 0x0F) < 16"
proof -
  have "x AND 0x0F = take_bit 4 x"
    by (simp add: take_bit_eq_mask mask_eq_exp_minus_1)
  moreover have "unat (take_bit 4 x) = take_bit 4 (unat x)"
    by (simp add: unsigned_take_bit_eq)
  moreover have "take_bit 4 (unat x) < 2 ^ 4"
    by (rule take_bit_nat_less_exp)
  ultimately show ?thesis by simp
qed

lemma pos_nibble:
  fixes x :: int8_t
  shows "unat (word_of_int (sint x AND 0x0F) :: unsigned) = unat (x AND 0x0F)"
proof -
  have "sint x AND 15 = uint (x AND 15)"
    using sint_and_mask [of 4 x] by (simp add: mask_eq_exp_minus_1)
  then have "(word_of_int (sint x AND 15) :: unsigned) = ucast (x AND 15)"
    by simp
  moreover have "unat (ucast (x AND 15) :: unsigned) = take_bit 32 (unat (x AND 15))"
    by (simp add: unsigned_ucast_eq)
  moreover have "take_bit 32 (unat (x AND 15)) = unat (x AND 15)"
    using nibble_less [of x] by (simp add: take_bit_nat_eq_self)
  ultimately show ?thesis by simp
qed

lemma shuffle_lane:
  fixes x y :: int8_t
  shows "(word_of_int (sint (ucast (NOT (word_of_int (sint x AND 0x80) :: unsigned)) :: int16_t) * sint y) :: int8_t)
           = (if bit x 7 then 127 * y else - y)"
proof -
  have set: "sint (ucast (NOT (0x80 :: unsigned)) :: int16_t) = - 129"
    by simp
  have "NOT (0 :: unsigned) = 0xFFFFFFFF"
    by simp
  then have clear: "sint (ucast (NOT (0 :: unsigned)) :: int16_t) = - 1"
    by (simp only: ) simp
  have "(word_of_int (- 129 * sint y) :: int8_t) = (- 129) * y"
    by simp
  also have "(- 129 :: int8_t) = 127"
    by simp
  finally have "(word_of_int (- 129 * sint y) :: int8_t) = 127 * y" .
  then show ?thesis
    unfolding flag_bit
    by (simp only: set clear if_distrib [of "\<lambda>w. sint (ucast (NOT w) :: int16_t)"] split: if_splits) simp
qed

text \<open>
  What the portable loop computes, for every input that gets past the assertion: the
  selected byte is always taken from the same 16-byte half, but it is stored negated
  when the control byte's top bit is clear and multiplied by 127 (modulo 256) when the
  top bit is set.
\<close>

lemma m256_shuffle_epi8_lanes:
  assumes "ndebug \<or> a \<noteq> b" and "i < 16"
  shows "\<exists>c. m256_shuffle_epi8 ndebug a b = Inr c \<and> length c = 32
           \<and> c ! i = (if bit (b ! i) 7 then 127 * a ! unat (b ! i AND 0x0F)
                       else - (a ! unat (b ! i AND 0x0F)))
           \<and> c ! (i + 16) = (if bit (b ! (i + 16)) 7 then 127 * a ! (unat (b ! (i + 16) AND 0x0F) + 16)
                       else - (a ! (unat (b ! (i + 16) AND 0x0F) + 16)))"
proof -
  let ?f = "\<lambda>i. if bit (b ! i) 7 then 127 * a ! unat (b ! i AND 0x0F) else - (a ! unat (b ! i AND 0x0F))"
  let ?g = "\<lambda>i. if bit (b ! (i + 16)) 7 then 127 * a ! (unat (b ! (i + 16) AND 0x0F) + 16)
                else - (a ! (unat (b ! (i + 16) AND 0x0F) + 16))"
  let ?c = "fold (\<lambda>i c. c[i := ?f i, i + 16 := ?g i]) [0..<16] (replicate 32 0)"
  have "m256_shuffle_epi8 ndebug a b = Inr ?c"
    unfolding m256_shuffle_epi8_def Let_def shuffle_lane pos_nibble
    using assms(1) by auto
  moreover have "length ?c = 32"
    by (simp only: length_fold_update2 length_replicate)
  moreover have "?c ! i = ?f i \<and> ?c ! (i + 16) = ?g i"
    using assms(2) by (intro nth_fold_update2) simp_all
  ultimately show ?thesis by blast
qed

text \<open>
  C1.  The claim: for distinct 32-byte arrays \<open>a\<close> and \<open>b\<close>, byte \<open>i\<close> of
  \<open>m256_shuffle_epi8 a b\<close> is \<open>0\<close> when the top bit of \<open>b[i]\<close> is set and otherwise the
  byte of the same half of \<open>a\<close> at the index in the low four bits of \<open>b[i]\<close>.  The
  portable loop does not compute this.  With \<open>a = [1, 2, 3, 0, \<dots>]\<close> and
  \<open>b = [2, 0x81, 0, \<dots>]\<close> the claim asks for \<open>c[0] = a[2] = 3\<close>, \<open>c[1] = 0\<close> and
  \<open>c[2] = a[0] = 1\<close>; the loop returns \<open>c[0] = 0xFD\<close> (that is \<open>-3\<close>), \<open>c[1] = 0xFE\<close>
  (that is \<open>127 * 2\<close> modulo 256) and \<open>c[2] = 0xFF\<close> (that is \<open>-1\<close>).
\<close>

theorem m256_shuffle_epi8_failing_input:
  "m256_shuffle_epi8 False ([1, 2, 3] @ replicate 29 0) ([2, 0x81] @ replicate 30 0)
     = Inr ([0xFD, 0xFE] @ replicate 14 0xFF @ replicate 16 0)"
  by code_simp

section \<open>The randomness primitive\<close>








end
